theory Spec2Isabelle
  imports Complex_Main
begin

section \<open>Timeline store: data model (types/index.ts)\<close>

text \<open>
  JavaScript numbers are modelled as real numbers; NaN and the infinities are outside
  the model. The store, the validation and the snapping functions compute exactly. In
  the coordinate transform and in the resize handler, where the rounding of the double
  arithmetic decides the result, every arithmetic operation is followed by the rounding
  \<open>rnd\<close> of the number format: \<open>double_round\<close> below for JavaScript's doubles, the
  identity for exact arithmetic. An optional property is an
  \<open>option\<close>; the properties of \<open>TimelineItem\<close> that no modelled function reads
  (thumbnailUrl, position, scale, rotation, the font fields, effects) live in the
  extension slot of the record, which every record update below leaves alone, as the
  object spread of the source does.
\<close>

datatype ItemType = Video | Image | Audio | Text

datatype TrackType = VideoTrack | AudioTrack | TextTrack

record TimelineItem =
  item_id :: string
  trackId :: string
  item_type :: ItemType
  startTime :: real
  duration :: real
  mediaUrl :: "string option"
  item_name :: string
  item_locked :: "bool option"
  muted :: "bool option"
  volume :: "real option"
  opacity :: "real option"
  item_text :: "string option"
  trimStart :: "real option"
  trimEnd :: "real option"

record Track =
  track_id :: string
  track_name :: string
  track_type :: TrackType
  track_order :: real
  track_locked :: "bool option"
  hidden :: "bool option"
  height :: "real option"

record TimelineState =
  tracks :: "Track list"
  items :: "TimelineItem list"
  playheadPosition :: real
  timeline_duration :: real
  zoom :: real
  selectedItemIds :: "string list"

text \<open>\<open>Partial<TimelineItem>\<close>: \<open>None\<close> is an absent key, which the spread
  \<open>{ ...i, ...updates }\<close> leaves as it was.\<close>

record ItemUpdates =
  u_id :: "string option"
  u_trackId :: "string option"
  u_type :: "ItemType option"
  u_startTime :: "real option"
  u_duration :: "real option"
  u_mediaUrl :: "string option option"
  u_name :: "string option"
  u_locked :: "bool option option"
  u_muted :: "bool option option"
  u_volume :: "real option option"
  u_opacity :: "real option option"
  u_text :: "string option option"
  u_trimStart :: "real option option"
  u_trimEnd :: "real option option"

definition no_updates :: ItemUpdates where
  "no_updates = \<lparr> u_id = None, u_trackId = None, u_type = None, u_startTime = None,
     u_duration = None, u_mediaUrl = None, u_name = None, u_locked = None, u_muted = None,
     u_volume = None, u_opacity = None, u_text = None, u_trimStart = None,
     u_trimEnd = None \<rparr>"

fun merge_field :: "'a option \<Rightarrow> 'a \<Rightarrow> 'a" where
  "merge_field None old = old"
| "merge_field (Some v) old = v"

text \<open>\<open>{ ...i, ...updates }\<close>\<close>

definition spread_updates :: "'z TimelineItem_scheme \<Rightarrow> ItemUpdates \<Rightarrow> 'z TimelineItem_scheme" where
  "spread_updates i u = i\<lparr>
     item_id := merge_field (u_id u) (item_id i),
     trackId := merge_field (u_trackId u) (trackId i),
     item_type := merge_field (u_type u) (item_type i),
     startTime := merge_field (u_startTime u) (startTime i),
     duration := merge_field (u_duration u) (duration i),
     mediaUrl := merge_field (u_mediaUrl u) (mediaUrl i),
     item_name := merge_field (u_name u) (item_name i),
     item_locked := merge_field (u_locked u) (item_locked i),
     muted := merge_field (u_muted u) (muted i),
     volume := merge_field (u_volume u) (volume i),
     opacity := merge_field (u_opacity u) (opacity i),
     item_text := merge_field (u_text u) (item_text i),
     trimStart := merge_field (u_trimStart u) (trimStart i),
     trimEnd := merge_field (u_trimEnd u) (trimEnd i) \<rparr>"

section \<open>Rounding to a double\<close>

text \<open>
  A JavaScript number is an IEEE 754 binary64 value, and an arithmetic operation returns
  the exact result rounded to the nearest such value, a tie going to the even
  significand. \<open>bracket n x e\<close> looks for the binade of \<open>x > 0\<close>, the exponent \<open>e\<close> with
  \<open>2 powi e \<le> x < 2 powi (e + 1)\<close>, in at most \<open>n\<close> steps up or down from \<open>e\<close>. The
  exponent of a double is at least \<open>-1022\<close> (below \<open>2 powi (-1022)\<close> the subnormal numbers
  have the spacing \<open>2 powi (-1074)\<close>) and at most \<open>1023\<close>; a result of magnitude
  \<open>2 ^ 1024\<close> or more overflows to an infinity, which is outside the model.
\<close>

primrec bracket :: "nat \<Rightarrow> real \<Rightarrow> int \<Rightarrow> int" where
  "bracket 0 x e = e"
| "bracket (Suc n) x e =
     (if 2 powi (e + 1) \<le> x then bracket n x (e + 1)
      else if x < 2 powi e then bracket n x (e - 1)
      else e)"

definition double_exponent :: "real \<Rightarrow> int" where
  "double_exponent x = max (- 1022) (bracket 1023 \<bar>x\<bar> 0)"

definition round_half_even :: "real \<Rightarrow> int" where
  "round_half_even y =
     (let f = \<lfloor>y\<rfloor>; d = y - of_int f
      in if d < 1 / 2 then f
         else if 1 / 2 < d then f + 1
         else if even f then f else f + 1)"

text \<open>The nearest double: the nearest multiple of the spacing \<open>2 powi (e - 52)\<close> of the
  binade of \<open>x\<close>.\<close>

definition double_round :: "real \<Rightarrow> real" where
  "double_round x =
     (if x = 0 then 0
      else let ulp = 2 powi (double_exponent x - 52)
           in of_int (round_half_even (x / ulp)) * ulp)"

definition unit_roundoff :: real where
  "unit_roundoff = 1 / 2 ^ 53"

definition underflow_unit :: real where
  "underflow_unit = 1 / 2 ^ 1075"

section \<open>Time calculations (lib/timeline/calculations.ts)\<close>

text \<open>\<open>pixels / zoom\<close> and \<open>seconds * zoom\<close>, rounded by \<open>rnd\<close>.\<close>

definition pixelsToSeconds :: "(real \<Rightarrow> real) \<Rightarrow> real \<Rightarrow> real \<Rightarrow> real" where
  "pixelsToSeconds rnd pixels z = rnd (pixels / z)"

definition secondsToPixels :: "(real \<Rightarrow> real) \<Rightarrow> real \<Rightarrow> real \<Rightarrow> real" where
  "secondsToPixels rnd seconds z = rnd (seconds * z)"

definition getItemEndTime :: "'z TimelineItem_scheme \<Rightarrow> real" where
  "getItemEndTime item = startTime item + duration item"




section \<open>Timeline store: operations (store/timelineStore.ts)\<close>

text \<open>\<open>Math.max(a, ...rest)\<close> on at least one argument. \<open>Math.max\<close> does not depend on
  the order of its arguments, so a call \<open>Math.max(...xs, d)\<close> is \<open>Math_max d xs\<close>.\<close>

definition Math_max :: "real \<Rightarrow> real list \<Rightarrow> real" where
  "Math_max a rest = fold max rest a"

definition initialState :: TimelineState where
  "initialState = \<lparr>
     tracks = [
       \<lparr> track_id = ''track-video-1'', track_name = ''Video 1'', track_type = VideoTrack,
         track_order = 0, track_locked = None, hidden = None, height = Some 120 \<rparr>,
       \<lparr> track_id = ''track-audio-1'', track_name = ''Audio 1'', track_type = AudioTrack,
         track_order = 1, track_locked = None, hidden = None, height = Some 80 \<rparr> ],
     items = [],
     playheadPosition = 0,
     timeline_duration = 60,
     zoom = 50,
     selectedItemIds = [] \<rparr>"

definition removeTrack :: "string \<Rightarrow> TimelineState \<Rightarrow> TimelineState" where
  "removeTrack tid state = state\<lparr>
     tracks := filter (\<lambda>t. track_id t \<noteq> tid) (tracks state),
     items := filter (\<lambda>i. trackId i \<noteq> tid) (items state) \<rparr>"

text \<open>\<open>addItem\<close>: the payload is an item without an id (the \<open>item_id\<close> of the argument is
  overwritten); \<open>uuid\<close> is the value that the call \<open>uuidv4()\<close> of the external uuid
  library returns.\<close>

definition addItem :: "string \<Rightarrow> TimelineItem \<Rightarrow> TimelineState \<Rightarrow> TimelineState" where
  "addItem uuid item state =
     (let newItem = item\<lparr> item_id := uuid \<rparr>
      in state\<lparr>
           items := items state @ [newItem],
           timeline_duration := max (timeline_duration state) (startTime newItem + duration newItem) \<rparr>)"

definition removeItem :: "string \<Rightarrow> TimelineState \<Rightarrow> TimelineState" where
  "removeItem itemId state = state\<lparr>
     items := filter (\<lambda>i. item_id i \<noteq> itemId) (items state),
     selectedItemIds := filter (\<lambda>x. x \<noteq> itemId) (selectedItemIds state) \<rparr>"

definition updateItem :: "string \<Rightarrow> ItemUpdates \<Rightarrow> TimelineState \<Rightarrow> TimelineState" where
  "updateItem itemId updates state =
     (let its = map (\<lambda>i. if item_id i \<noteq> itemId then i else spread_updates i updates) (items state);
          maxEndTime = Math_max (timeline_duration state) (map (\<lambda>i. startTime i + duration i) its)
      in state\<lparr> items := its, timeline_duration := maxEndTime \<rparr>)"

definition moveItem :: "string \<Rightarrow> string \<Rightarrow> real \<Rightarrow> TimelineState \<Rightarrow> TimelineState" where
  "moveItem itemId tid st state =
     updateItem itemId (no_updates\<lparr> u_trackId := Some tid, u_startTime := Some st \<rparr>) state"

definition removeItems :: "string list \<Rightarrow> TimelineState \<Rightarrow> TimelineState" where
  "removeItems itemIds state = state\<lparr>
     items := filter (\<lambda>i. item_id i \<notin> set itemIds) (items state),
     selectedItemIds := filter (\<lambda>x. x \<notin> set itemIds) (selectedItemIds state) \<rparr>"

definition setDuration :: "real \<Rightarrow> TimelineState \<Rightarrow> TimelineState" where
  "setDuration d state = state\<lparr> timeline_duration := max 1 d \<rparr>"

definition setZoom :: "real \<Rightarrow> TimelineState \<Rightarrow> TimelineState" where
  "setZoom z state = state\<lparr> zoom := max 10 (min 500 z) \<rparr>"


definition calculateTotalDuration :: "TimelineState \<Rightarrow> real" where
  "calculateTotalDuration state =
     (case items state of
        [] \<Rightarrow> 60
      | i # rest \<Rightarrow>
          (let maxEndTime = Math_max (startTime i + duration i) (map (\<lambda>i. startTime i + duration i) rest)
           in max maxEndTime 1))"

text \<open>\<open>reset\<close> is \<open>set(initialState)\<close>: every field of the state is overwritten.\<close>

definition reset :: "TimelineState \<Rightarrow> TimelineState" where
  "reset state = initialState"

text \<open>\<open>Partial<TimelineState>\<close>, the argument of \<open>loadState\<close>; \<open>None\<close> is an absent key.\<close>

record StateUpdates =
  l_tracks :: "Track list option"
  l_items :: "TimelineItem list option"
  l_playheadPosition :: "real option"
  l_duration :: "real option"
  l_zoom :: "real option"
  l_selectedItemIds :: "string list option"

definition loadState :: "StateUpdates \<Rightarrow> TimelineState \<Rightarrow> TimelineState" where
  "loadState loaded current = current\<lparr>
     tracks := merge_field (l_tracks loaded) (tracks current),
     items := merge_field (l_items loaded) (items current),
     playheadPosition := merge_field (l_playheadPosition loaded) (playheadPosition current),
     timeline_duration := merge_field (l_duration loaded) (timeline_duration current),
     zoom := merge_field (l_zoom loaded) (zoom current),
     selectedItemIds := merge_field (l_selectedItemIds loaded) (selectedItemIds current) \<rparr>"

text \<open>A call of one of the item entry points that write the stored duration or remove
  items, and a sequence of such calls in the order they are made.\<close>

datatype ItemOp =
    AddItem string TimelineItem
  | UpdateItem string ItemUpdates
  | MoveItem string string real
  | RemoveItem string
  | RemoveItems "string list"

fun apply_op :: "ItemOp \<Rightarrow> TimelineState \<Rightarrow> TimelineState" where
  "apply_op (AddItem uuid item) state = addItem uuid item state"
| "apply_op (UpdateItem itemId updates) state = updateItem itemId updates state"
| "apply_op (MoveItem itemId tid st) state = moveItem itemId tid st state"
| "apply_op (RemoveItem itemId) state = removeItem itemId state"
| "apply_op (RemoveItems itemIds) state = removeItems itemIds state"

definition apply_ops :: "ItemOp list \<Rightarrow> TimelineState \<Rightarrow> TimelineState" where
  "apply_ops ops state = fold apply_op ops state"

text \<open>A test item: only the fields that the operations read are varied.\<close>

definition mk_item :: "string \<Rightarrow> string \<Rightarrow> real \<Rightarrow> real \<Rightarrow> TimelineItem" where
  "mk_item i tr st d = \<lparr> item_id = i, trackId = tr, item_type = Video, startTime = st,
     duration = d, mediaUrl = Some ''clip.mp4'', item_name = i, item_locked = None,
     muted = None, volume = None, opacity = None, item_text = None, trimStart = None,
     trimEnd = None \<rparr>"

section \<open>Validation (lib/timeline/validation.ts)\<close>



text \<open>\<open>track.height || 120\<close>: the default replaces an absent height and the falsy
  number 0.\<close>

fun or_default :: "real option \<Rightarrow> real \<Rightarrow> real" where
  "or_default None d = d"
| "or_default (Some h) d = (if h = 0 then d else h)"

definition sanitizeTrack :: "nat \<times> Track \<Rightarrow> Track" where
  "sanitizeTrack p = (case p of (index, track) \<Rightarrow>
     track\<lparr> track_order := real index, height := Some (max 40 (or_default (height track) 120)) \<rparr>)"

definition sanitizeItem :: "TimelineItem \<Rightarrow> TimelineItem" where
  "sanitizeItem item = item\<lparr>
     startTime := max 0 (startTime item),
     duration := max (1 / 10) (duration item),
     volume := (case volume item of Some v \<Rightarrow> Some (max 0 (min 100 v)) | None \<Rightarrow> None),
     opacity := (case opacity item of Some v \<Rightarrow> Some (max 0 (min 100 v)) | None \<Rightarrow> None) \<rparr>"

definition sanitizeTimeline :: "TimelineState \<Rightarrow> TimelineState" where
  "sanitizeTimeline timeline = timeline\<lparr>
     playheadPosition := max 0 (playheadPosition timeline),
     timeline_duration := max 1 (timeline_duration timeline),
     zoom := max 10 (min 500 (zoom timeline)),
     tracks := map sanitizeTrack (enumerate 0 (tracks timeline)),
     items := map sanitizeItem (items timeline) \<rparr>"

section \<open>Timeline hook: data model (types/timeline.ts) and state (hooks/useTimeline.ts)\<close>

text \<open>
  The timeline component works on a second representation, in which a track holds its
  items (types/timeline.ts). The records below have the properties that useTimeline.ts,
  useSnapping.ts, Timeline.tsx and TimelineItem.tsx read and write; the optional
  properties \<open>data\<close> of an item and \<open>locked\<close> and \<open>visible\<close> of a track, which none of them
  touches, are left out. The suffix \<open>_tl\<close> tells the records from the store's types.
\<close>

record TimelineItem_tl =
  id_tl :: string
  type_tl :: ItemType
  trackId_tl :: string
  startTime_tl :: real
  duration_tl :: real
  name_tl :: string
  thumbnail_tl :: "string option"

record Track_tl =
  track_id_tl :: string
  track_name_tl :: string
  items_tl :: "TimelineItem_tl list"
  height_tl :: real

record TimelineState_tl =
  tracks_tl :: "Track_tl list"
  zoom_tl :: real
  playheadPosition_tl :: real
  selectedItemId_tl :: "string option"
  snapToGrid_tl :: bool
  snapInterval_tl :: real
  totalDuration_tl :: real

record ItemUpdates_tl =
  v_id :: "string option"
  v_type :: "ItemType option"
  v_trackId :: "string option"
  v_startTime :: "real option"
  v_duration :: "real option"
  v_name :: "string option"
  v_thumbnail :: "string option option"

definition no_updates_tl :: ItemUpdates_tl where
  "no_updates_tl = \<lparr> v_id = None, v_type = None, v_trackId = None, v_startTime = None,
     v_duration = None, v_name = None, v_thumbnail = None \<rparr>"

definition spread_updates_tl :: "TimelineItem_tl \<Rightarrow> ItemUpdates_tl \<Rightarrow> TimelineItem_tl" where
  "spread_updates_tl i u = i\<lparr>
     id_tl := merge_field (v_id u) (id_tl i),
     type_tl := merge_field (v_type u) (type_tl i),
     trackId_tl := merge_field (v_trackId u) (trackId_tl i),
     startTime_tl := merge_field (v_startTime u) (startTime_tl i),
     duration_tl := merge_field (v_duration u) (duration_tl i),
     name_tl := merge_field (v_name u) (name_tl i),
     thumbnail_tl := merge_field (v_thumbnail u) (thumbnail_tl i) \<rparr>"

definition initialState_tl :: TimelineState_tl where
  "initialState_tl = \<lparr>
     tracks_tl = [\<lparr> track_id_tl = ''track-1'', track_name_tl = ''Track 1'', items_tl = [],
                    height_tl = 80 \<rparr>],
     zoom_tl = 100,
     playheadPosition_tl = 0,
     selectedItemId_tl = None,
     snapToGrid_tl = True,
     snapInterval_tl = 1 / 2,
     totalDuration_tl = 30 \<rparr>"

definition removeTrack_tl :: "string \<Rightarrow> TimelineState_tl \<Rightarrow> TimelineState_tl" where
  "removeTrack_tl tid prev =
     (if length (tracks_tl prev) \<le> 1 then prev
      else prev\<lparr> tracks_tl := filter (\<lambda>t. track_id_tl t \<noteq> tid) (tracks_tl prev) \<rparr>)"

definition updateItem_tl :: "string \<Rightarrow> ItemUpdates_tl \<Rightarrow> TimelineState_tl \<Rightarrow> TimelineState_tl" where
  "updateItem_tl itemId updates prev = prev\<lparr>
     tracks_tl := map (\<lambda>track. track\<lparr>
         items_tl := map (\<lambda>item. if id_tl item = itemId then spread_updates_tl item updates else item)
                       (items_tl track) \<rparr>)
       (tracks_tl prev) \<rparr>"

section \<open>Snapping (hooks/useSnapping.ts)\<close>

datatype SnapType = Grid | ItemStart | ItemEnd

record SnapPoint =
  sp_time :: real
  sp_type :: SnapType
  sp_itemId :: "string option"

record SnapResult =
  snappedTime :: real
  snapPoints :: "SnapPoint list"
  nearestSnapPoint :: "SnapPoint option"

definition default_snapThreshold :: real where
  "default_snapThreshold = 1 / 10"

definition itemSnapPoints :: "Track_tl list \<Rightarrow> SnapPoint list" where
  "itemSnapPoints trs =
     concat (map (\<lambda>track. concat (map (\<lambda>item.
         [\<lparr> sp_time = startTime_tl item, sp_type = ItemStart, sp_itemId = Some (id_tl item) \<rparr>,
          \<lparr> sp_time = startTime_tl item + duration_tl item, sp_type = ItemEnd,
            sp_itemId = Some (id_tl item) \<rparr>])
       (items_tl track))) trs)"

text \<open>One round of the loop \<open>for (const point of snapPoints)\<close>; the loop state is the pair
  \<open>(nearestSnapPoint, minDistance)\<close>.\<close>

definition nearest_step :: "real \<Rightarrow> SnapPoint \<Rightarrow> SnapPoint option \<times> real \<Rightarrow> SnapPoint option \<times> real" where
  "nearest_step t point acc =
     (let distance = \<bar>sp_time point - t\<bar>
      in if distance < snd acc then (Some point, distance) else acc)"

text \<open>\<open>Math.round\<close> rounds a tie towards plus infinity, as \<open>round\<close> does
  (\<open>round x = \<lfloor>x + 1/2\<rfloor>\<close>). The argument \<open>excludeItemId\<close> is optional:
  \<open>None\<close> is \<open>undefined\<close>.\<close>

definition calculateSnap ::
  "Track_tl list \<Rightarrow> bool \<Rightarrow> real \<Rightarrow> real \<Rightarrow> real \<Rightarrow> string option \<Rightarrow> SnapResult" where
  "calculateSnap trs snapToGrid snapInterval snapThreshold t excludeItemId =
     (let gridPoints =
            (if snapToGrid \<and> snapInterval > 0
             then [\<lparr> sp_time = real_of_int (round (t / snapInterval)) * snapInterval,
                     sp_type = Grid, sp_itemId = None \<rparr>]
             else []);
          relevantItemPoints = filter (\<lambda>point. sp_itemId point \<noteq> excludeItemId) (itemSnapPoints trs);
          points = gridPoints @ relevantItemPoints;
          nearest = fst (fold (nearest_step t) points (None, snapThreshold))
      in \<lparr> snappedTime = (case nearest of Some p \<Rightarrow> sp_time p | None \<Rightarrow> t),
           snapPoints = points,
           nearestSnapPoint = nearest \<rparr>)"

definition snapTime ::
  "Track_tl list \<Rightarrow> bool \<Rightarrow> real \<Rightarrow> real \<Rightarrow> real \<Rightarrow> string option \<Rightarrow> real" where
  "snapTime trs snapToGrid snapInterval snapThreshold t excludeItemId =
     snappedTime (calculateSnap trs snapToGrid snapInterval snapThreshold t excludeItemId)"

section \<open>Resizing an item (components/Timeline/TimelineItem.tsx)\<close>

datatype ResizeHandle = HandleStart | HandleEnd

text \<open>
  \<open>handleMouseMove\<close> is installed while \<open>isResizing\<close> is not null. Its result is the call
  of \<open>onUpdate\<close> that it makes, if any: the item id and the partial update. The
  arguments are the rounding \<open>rnd\<close> of the arithmetic, the component's state
  (\<open>isResizing\<close>, \<open>resizeStartX\<close>, the original start time and duration captured by
  \<open>handleResizeStart\<close>), its props (\<open>zoom\<close>, the item id, \<open>onSnapTime\<close>) and the pointer
  position \<open>clientX\<close> of the event. The literal \<open>0.1\<close> of the source is the number
  \<open>rnd (1 / 10)\<close>; \<open>Math.max\<close> and the comparisons do not round.
\<close>

definition handleMouseMove ::
  "(real \<Rightarrow> real) \<Rightarrow> ResizeHandle option \<Rightarrow> real \<Rightarrow> real \<Rightarrow> real \<Rightarrow> real \<Rightarrow> string
     \<Rightarrow> (real \<Rightarrow> string \<Rightarrow> real) \<Rightarrow> real \<Rightarrow> (string \<times> ItemUpdates_tl) option" where
  "handleMouseMove rnd isResizing resizeStartX z originalStartTime originalDuration itemId onSnapTime clientX =
     (let deltaX = rnd (clientX - resizeStartX);
          deltaTime = rnd (deltaX / z)
      in case isResizing of
           None \<Rightarrow> None
         | Some HandleStart \<Rightarrow>
             (let newStartTime = onSnapTime (rnd (originalStartTime + deltaTime)) itemId;
                  timeDiff = rnd (newStartTime - originalStartTime);
                  newDuration = max (rnd (1 / 10)) (rnd (originalDuration - timeDiff))
              in if newStartTime \<ge> 0 \<and> newDuration > rnd (1 / 10)
                 then Some (itemId, no_updates_tl\<lparr> v_startTime := Some newStartTime,
                                                    v_duration := Some newDuration \<rparr>)
                 else None)
         | Some HandleEnd \<Rightarrow>
             (let newDuration = max (rnd (1 / 10)) (rnd (originalDuration + deltaTime));
                  newEndTime = onSnapTime (rnd (originalStartTime + newDuration)) itemId;
                  snappedDuration = rnd (newEndTime - originalStartTime)
              in if snappedDuration > rnd (1 / 10)
                 then Some (itemId, no_updates_tl\<lparr> v_duration := Some snappedDuration \<rparr>)
                 else None))"

text \<open>The state after a pointer move: \<open>onUpdate\<close> is \<open>updateItem\<close> of the timeline hook
  (Timeline.tsx passes \<open>timeline.updateItem\<close> down as \<open>onUpdateItem\<close>); without a call of
  \<open>onUpdate\<close> the state stays as it is.\<close>

definition apply_onUpdate :: "(string \<times> ItemUpdates_tl) option \<Rightarrow> TimelineState_tl \<Rightarrow> TimelineState_tl" where
  "apply_onUpdate call state =
     (case call of None \<Rightarrow> state | Some (itemId, updates) \<Rightarrow> updateItem_tl itemId updates state)"

definition mk_item_tl :: "string \<Rightarrow> string \<Rightarrow> real \<Rightarrow> real \<Rightarrow> TimelineItem_tl" where
  "mk_item_tl i tr st d = \<lparr> id_tl = i, type_tl = Video, trackId_tl = tr, startTime_tl = st,
     duration_tl = d, name_tl = i, thumbnail_tl = None \<rparr>"

section \<open>Candidate times of a snap, and example timelines\<close>


text \<open>\<open>onSnapTime\<close> as Timeline.tsx wires it: \<open>snapTime\<close> of \<open>useSnapping\<close> on the tracks and
  snap settings of the timeline state, with the default threshold, the number \<open>0.1\<close>.\<close>

definition onSnapTime_of :: "(real \<Rightarrow> real) \<Rightarrow> TimelineState_tl \<Rightarrow> real \<Rightarrow> string \<Rightarrow> real" where
  "onSnapTime_of rnd state t excludeItemId =
     snapTime (tracks_tl state) (snapToGrid_tl state) (snapInterval_tl state)
       (rnd default_snapThreshold) t (Some excludeItemId)"

text \<open>A snapshot that breaks every range that \<open>sanitizeTimeline\<close> restores.\<close>

definition bad_snapshot :: TimelineState where
  "bad_snapshot = \<lparr>
     tracks = [
       \<lparr> track_id = ''t1'', track_name = ''Video 1'', track_type = VideoTrack,
         track_order = 7, track_locked = None, hidden = None, height = Some (- 5) \<rparr>,
       \<lparr> track_id = ''t2'', track_name = ''Audio 1'', track_type = AudioTrack,
         track_order = 3, track_locked = None, hidden = None, height = None \<rparr> ],
     items = [(mk_item ''a'' ''t1'' (- 2) 0)\<lparr> volume := Some 150, opacity := Some (- 1) \<rparr>],
     playheadPosition = - 3,
     timeline_duration = 0,
     zoom = 1000,
     selectedItemIds = [] \<rparr>"


definition demo_tracks :: "Track_tl list" where
  "demo_tracks = [\<lparr> track_id_tl = ''track-1'', track_name_tl = ''Track 1'',
                     items_tl = [mk_item_tl ''a'' ''track-1'' 0 5], height_tl = 80 \<rparr>]"


section \<open>Items at a time\<close>



section \<open>Removing a track\<close>

lemma removeTrack_tl_single_track:
  "length (tracks_tl prev) = 1 \<Longrightarrow> removeTrack_tl tid prev = prev"
  by (simp add: removeTrack_tl_def)

lemma removeTrack_single_track:
  "tracks state = [t] \<Longrightarrow> tracks (removeTrack (track_id t) state) = []"
  by (simp add: removeTrack_def)

lemma removeTrack_effect:
  "tracks (removeTrack tid state) = filter (\<lambda>t. track_id t \<noteq> tid) (tracks state)
   \<and> items (removeTrack tid state) = filter (\<lambda>i. trackId i \<noteq> tid) (items state)
   \<and> selectedItemIds (removeTrack tid state) = selectedItemIds state
   \<and> playheadPosition (removeTrack tid state) = playheadPosition state
   \<and> timeline_duration (removeTrack tid state) = timeline_duration state
   \<and> zoom (removeTrack tid state) = zoom state"
  by (simp add: removeTrack_def)

text \<open>
  C1. The claim: with exactly one track, \<open>removeTrack\<close> of that track leaves the state
  unchanged, so that every reachable state has a track. The store's \<open>removeTrack\<close> has
  no such guard (the hook's \<open>removeTrack\<close> has it, see \<open>removeTrack_tl_single_track\<close>),
  so it empties any single-track state (\<open>removeTrack_single_track\<close>): from the initial
  state, removing the video track leaves one track, and removing that one leaves none.
\<close>

theorem removeTrack_last_track_removed:
  "length (tracks (removeTrack ''track-video-1'' initialState)) = 1
   \<and> tracks (removeTrack ''track-audio-1'' (removeTrack ''track-video-1'' initialState)) = []"
  by (simp add: removeTrack_def initialState_def)

text \<open>
  C7. The claim: \<open>removeTrack\<close> removes the track and its items and clears the removed
  items from the selection. The store's \<open>removeTrack\<close> removes the track and its items
  but leaves \<open>selectedItemIds\<close> as it was (\<open>removeItem\<close> and \<open>removeItems\<close> filter it):
  the id of a removed item stays selected.
\<close>

theorem removeTrack_keeps_selection:
  "items (removeTrack ''track-video-1''
      (initialState\<lparr> items := [mk_item ''a'' ''track-video-1'' 0 5], selectedItemIds := [''a''] \<rparr>)) = []
   \<and> selectedItemIds (removeTrack ''track-video-1''
      (initialState\<lparr> items := [mk_item ''a'' ''track-video-1'' 0 5], selectedItemIds := [''a''] \<rparr>)) = [''a'']"
  by (simp add: removeTrack_def initialState_def mk_item_def)

section \<open>The stored total duration\<close>

lemma Math_max_eq_Max: "Math_max a xs = Max (insert a (set xs))"
  unfolding Math_max_def using Max.set_eq_fold [of a xs] by simp

text \<open>
  C2, as stated, fails: after \<open>addItem\<close> of an item that ends at 100 the stored duration is
  100; shrinking that item to end at 5 (\<open>updateItem\<close>) or removing it (\<open>removeItem\<close>)
  leaves the stored duration at 100, which is neither the new maximum item end nor its
  maximum with a floor of 0.1, 1 or 60, nor the value of \<open>calculateTotalDuration\<close>.
\<close>

theorem updateItem_shrink_counterexample:
  "timeline_duration (addItem ''a'' (mk_item [] ''track-video-1'' 0 100) initialState) = 100
   \<and> map getItemEndTime
        (items (updateItem ''a'' (no_updates\<lparr> u_duration := Some 5 \<rparr>)
           (addItem ''a'' (mk_item [] ''track-video-1'' 0 100) initialState))) = [5]
   \<and> timeline_duration (updateItem ''a'' (no_updates\<lparr> u_duration := Some 5 \<rparr>)
        (addItem ''a'' (mk_item [] ''track-video-1'' 0 100) initialState)) = 100
   \<and> timeline_duration (updateItem ''a'' (no_updates\<lparr> u_duration := Some 5 \<rparr>)
        (addItem ''a'' (mk_item [] ''track-video-1'' 0 100) initialState)) \<noteq> max (1 / 10) 5
   \<and> timeline_duration (updateItem ''a'' (no_updates\<lparr> u_duration := Some 5 \<rparr>)
        (addItem ''a'' (mk_item [] ''track-video-1'' 0 100) initialState)) \<noteq> max 1 5
   \<and> timeline_duration (updateItem ''a'' (no_updates\<lparr> u_duration := Some 5 \<rparr>)
        (addItem ''a'' (mk_item [] ''track-video-1'' 0 100) initialState)) \<noteq> max 60 5
   \<and> calculateTotalDuration (updateItem ''a'' (no_updates\<lparr> u_duration := Some 5 \<rparr>)
        (addItem ''a'' (mk_item [] ''track-video-1'' 0 100) initialState)) = 5
   \<and> items (removeItem ''a''
        (addItem ''a'' (mk_item [] ''track-video-1'' 0 100) initialState)) = []
   \<and> timeline_duration (removeItem ''a''
        (addItem ''a'' (mk_item [] ''track-video-1'' 0 100) initialState)) = 100"
  by (simp add: addItem_def updateItem_def removeItem_def initialState_def mk_item_def
      no_updates_def spread_updates_def Math_max_def calculateTotalDuration_def Let_def
      getItemEndTime_def)

lemma apply_op_duration_mono:
  "timeline_duration state \<le> timeline_duration (apply_op op state)"
  by (cases op)
    (simp_all add: addItem_def updateItem_def moveItem_def removeItem_def removeItems_def
      Let_def Math_max_eq_Max)

lemma updateItem_covers:
  "i \<in> set (items (updateItem itemId updates state))
   \<Longrightarrow> getItemEndTime i \<le> timeline_duration (updateItem itemId updates state)"
proof -
  let ?its = "map (\<lambda>i. if item_id i \<noteq> itemId then i else spread_updates i updates) (items state)"
  let ?ends = "map (\<lambda>i. startTime i + duration i) ?its"
  assume "i \<in> set (items (updateItem itemId updates state))"
  then have "i \<in> set ?its" by (simp add: updateItem_def Let_def)
  then have "startTime i + duration i \<in> set ?ends"
    by (metis (no_types, lifting) image_eqI set_map)
  then have "startTime i + duration i \<le> Max (insert (timeline_duration state) (set ?ends))"
    by (intro Max_ge) simp_all
  moreover have "timeline_duration (updateItem itemId updates state)
      = Max (insert (timeline_duration state) (set ?ends))"
    unfolding Math_max_eq_Max [symmetric] by (simp add: updateItem_def Let_def)
  ultimately show ?thesis by (simp only: getItemEndTime_def)
qed

lemma apply_op_covers:
  assumes "\<forall>i\<in>set (items state). getItemEndTime i \<le> timeline_duration state"
  shows "\<forall>i\<in>set (items (apply_op op state)). getItemEndTime i \<le> timeline_duration (apply_op op state)"
proof (cases op)
  case (AddItem uuid item)
  have "getItemEndTime (item\<lparr> item_id := uuid \<rparr>) = startTime item + duration item"
    by (simp add: getItemEndTime_def)
  with assms AddItem show ?thesis
    by (auto simp: addItem_def Let_def max_def)
next
  case (UpdateItem itemId updates)
  then show ?thesis using updateItem_covers by simp
next
  case (MoveItem itemId tid st)
  then show ?thesis using updateItem_covers by (simp add: moveItem_def)
next
  case (RemoveItem itemId)
  with assms show ?thesis by (simp add: removeItem_def)
next
  case (RemoveItems itemIds)
  with assms show ?thesis by (simp add: removeItems_def)
qed

lemma apply_ops_duration_mono:
  "timeline_duration state \<le> timeline_duration (apply_ops ops state)"
proof (induction ops arbitrary: state)
  case Nil
  then show ?case by (simp add: apply_ops_def)
next
  case (Cons op ops)
  have "timeline_duration state \<le> timeline_duration (apply_op op state)"
    by (rule apply_op_duration_mono)
  also have "\<dots> \<le> timeline_duration (apply_ops ops (apply_op op state))"
    by (rule Cons.IH)
  finally show ?case by (simp add: apply_ops_def)
qed

lemma apply_ops_covers:
  "\<forall>i\<in>set (items state). getItemEndTime i \<le> timeline_duration state
   \<Longrightarrow> \<forall>i\<in>set (items (apply_ops ops state)).
         getItemEndTime i \<le> timeline_duration (apply_ops ops state)"
proof (induction ops arbitrary: state)
  case Nil
  then show ?case by (simp add: apply_ops_def)
next
  case (Cons op ops)
  from Cons.IH [OF apply_op_covers [OF Cons.prems, of op]]
  show ?case by (simp add: apply_ops_def)
qed

lemma calculateTotalDuration_eq:
  "calculateTotalDuration state =
     (if items state = [] then 60 else max 1 (Max (getItemEndTime ` set (items state))))"
proof (cases "items state")
  case Nil
  then show ?thesis by (simp add: calculateTotalDuration_def)
next
  case (Cons i rest)
  have e: "getItemEndTime = (\<lambda>i::TimelineItem. startTime i + duration i)"
    by (rule ext) (simp add: getItemEndTime_def)
  from Cons show ?thesis
    by (simp add: calculateTotalDuration_def Let_def Math_max_eq_Max e max.commute)
qed

text \<open>
  C2, amended. Through \<open>addItem\<close>, \<open>updateItem\<close>, \<open>moveItem\<close>, \<open>removeItem\<close> and
  \<open>removeItems\<close> the stored duration never shrinks: \<open>addItem\<close> sets it to the maximum of
  the stored duration and the new item's end; \<open>updateItem\<close> and \<open>moveItem\<close> set it to the
  maximum of the stored duration and the ends of all items after the update;
  \<open>removeItem\<close> and \<open>removeItems\<close> leave it as it was. So after every sequence of these
  calls it is at least what it was, and at least every item's end when it was so before
  the sequence. \<open>setDuration\<close> stores \<open>max(1, d)\<close>, \<open>reset\<close> stores 60 and \<open>loadState\<close> stores
  the loaded duration, whatever the items are. The query \<open>calculateTotalDuration\<close>
  returns 60 without items and otherwise the maximum of 1 and the greatest item end.
\<close>

theorem store_duration_never_shrinks:
  "timeline_duration (addItem uuid item state)
     = max (timeline_duration state) (startTime item + duration item)
   \<and> timeline_duration (updateItem itemId updates state)
     = Max (insert (timeline_duration state)
         (getItemEndTime ` set (items (updateItem itemId updates state))))
   \<and> timeline_duration (moveItem itemId tid st state)
     = Max (insert (timeline_duration state)
         (getItemEndTime ` set (items (moveItem itemId tid st state))))
   \<and> timeline_duration (removeItem itemId state) = timeline_duration state
   \<and> timeline_duration (removeItems itemIds state) = timeline_duration state
   \<and> timeline_duration state \<le> timeline_duration (apply_ops ops state)
   \<and> ((\<forall>i\<in>set (items state). getItemEndTime i \<le> timeline_duration state) \<longrightarrow>
        (\<forall>i\<in>set (items (apply_ops ops state)).
           getItemEndTime i \<le> timeline_duration (apply_ops ops state)))
   \<and> timeline_duration (setDuration d state) = max 1 d
   \<and> timeline_duration (reset state) = 60
   \<and> timeline_duration (loadState loaded state)
        = (case l_duration loaded of None \<Rightarrow> timeline_duration state | Some d' \<Rightarrow> d')
   \<and> calculateTotalDuration state =
        (if items state = [] then 60 else max 1 (Max (getItemEndTime ` set (items state))))"
proof -
  have e: "getItemEndTime = (\<lambda>i::TimelineItem. startTime i + duration i)"
    by (rule ext) (simp add: getItemEndTime_def)
  have ops: "timeline_duration (addItem uuid item state)
     = max (timeline_duration state) (startTime item + duration item)
   \<and> timeline_duration (updateItem itemId updates state)
     = Max (insert (timeline_duration state)
         (getItemEndTime ` set (items (updateItem itemId updates state))))
   \<and> timeline_duration (moveItem itemId tid st state)
     = Max (insert (timeline_duration state)
         (getItemEndTime ` set (items (moveItem itemId tid st state))))
   \<and> timeline_duration (removeItem itemId state) = timeline_duration state
   \<and> timeline_duration (removeItems itemIds state) = timeline_duration state"
    by (simp add: addItem_def updateItem_def moveItem_def removeItem_def removeItems_def
        Let_def Math_max_eq_Max e)
  have setters: "timeline_duration (setDuration d state) = max 1 d
   \<and> timeline_duration (reset state) = 60
   \<and> timeline_duration (loadState loaded state)
        = (case l_duration loaded of None \<Rightarrow> timeline_duration state | Some d' \<Rightarrow> d')"
    by (cases "l_duration loaded")
      (simp_all add: setDuration_def reset_def initialState_def loadState_def)
  from ops setters apply_ops_duration_mono [of state ops] apply_ops_covers [of state ops]
    calculateTotalDuration_eq [of state]
  show ?thesis by blast
qed

theorem store_duration_never_shrinks_witness:
  "timeline_duration (apply_ops
        [AddItem ''a'' (mk_item [] ''track-video-1'' 10 90),
         UpdateItem ''a'' (no_updates\<lparr> u_duration := Some 5 \<rparr>)] initialState) = 100
   \<and> map getItemEndTime (items (apply_ops
        [AddItem ''a'' (mk_item [] ''track-video-1'' 10 90),
         UpdateItem ''a'' (no_updates\<lparr> u_duration := Some 5 \<rparr>)] initialState)) = [15]
   \<and> timeline_duration initialState \<le> timeline_duration (apply_ops
        [AddItem ''a'' (mk_item [] ''track-video-1'' 10 90),
         UpdateItem ''a'' (no_updates\<lparr> u_duration := Some 5 \<rparr>)] initialState)
   \<and> getItemEndTime (hd (items (apply_ops
        [AddItem ''a'' (mk_item [] ''track-video-1'' 10 90),
         UpdateItem ''a'' (no_updates\<lparr> u_duration := Some 5 \<rparr>)] initialState)))
        \<le> timeline_duration (apply_ops
        [AddItem ''a'' (mk_item [] ''track-video-1'' 10 90),
         UpdateItem ''a'' (no_updates\<lparr> u_duration := Some 5 \<rparr>)] initialState)
   \<and> timeline_duration (setDuration 2 (apply_ops
        [AddItem ''a'' (mk_item [] ''track-video-1'' 10 90),
         UpdateItem ''a'' (no_updates\<lparr> u_duration := Some 5 \<rparr>)] initialState)) = 2"
proof -
  let ?ops = "[AddItem ''a'' (mk_item [] ''track-video-1'' 10 90),
         UpdateItem ''a'' (no_updates\<lparr> u_duration := Some 5 \<rparr>)]"
  have h: "\<forall>i\<in>set (items initialState). getItemEndTime i \<le> timeline_duration initialState"
    by (simp add: initialState_def)
  have v: "timeline_duration (apply_ops ?ops initialState) = 100
    \<and> map getItemEndTime (items (apply_ops ?ops initialState)) = [15]"
    by (simp add: apply_ops_def addItem_def updateItem_def initialState_def mk_item_def
        no_updates_def spread_updates_def Math_max_def Let_def getItemEndTime_def)
  then have ne: "hd (items (apply_ops ?ops initialState)) \<in> set (items (apply_ops ?ops initialState))"
    by (cases "items (apply_ops ?ops initialState)") simp_all
  note th = store_duration_never_shrinks [where state = initialState and ops = ?ops]
  from th have m: "timeline_duration initialState \<le> timeline_duration (apply_ops ?ops initialState)"
    by blast
  from th h have "\<forall>i\<in>set (items (apply_ops ?ops initialState)).
        getItemEndTime i \<le> timeline_duration (apply_ops ?ops initialState)"
    by blast
  with ne have c: "getItemEndTime (hd (items (apply_ops ?ops initialState)))
        \<le> timeline_duration (apply_ops ?ops initialState)"
    by blast
  from store_duration_never_shrinks [where state = "apply_ops ?ops initialState" and d = 2]
  have s: "timeline_duration (setDuration 2 (apply_ops ?ops initialState)) = max 1 2"
    by blast
  from v m c s show ?thesis by simp
qed

section \<open>Adding an item\<close>




section \<open>The error of rounding to a double\<close>

lemma bracket_lower_keep: "2 powi e \<le> x \<Longrightarrow> 2 powi (bracket n x e) \<le> x"
proof (induction n arbitrary: e)
  case 0
  then show ?case by simp
next
  case (Suc n)
  have "\<not> x < 2 powi e" using Suc.prems by simp
  then show ?case using Suc by simp
qed

lemma bracket_lower: "2 powi (bracket n x e) \<le> x \<or> bracket n x e = e - int n"
proof (induction n arbitrary: e)
  case 0
  then show ?case by simp
next
  case (Suc n)
  show ?case
  proof (cases "2 powi (e + 1) \<le> x")
    case True
    then show ?thesis using bracket_lower_keep [of "e + 1" x n] by simp
  next
    case up: False
    show ?thesis
    proof (cases "x < 2 powi e")
      case True
      with up Suc.IH [of "e - 1"] show ?thesis by auto
    next
      case False
      with up show ?thesis by simp
    qed
  qed
qed

lemma bracket_upper_keep: "x < 2 powi (e + 1) \<Longrightarrow> x < 2 powi (bracket n x e + 1)"
proof (induction n arbitrary: e)
  case 0
  then show ?case by simp
next
  case (Suc n)
  have up: "\<not> 2 powi (e + 1) \<le> x" using Suc.prems by simp
  show ?case
  proof (cases "x < 2 powi e")
    case True
    then have "x < 2 powi (e - 1 + 1)" by simp
    from Suc.IH [OF this] up True show ?thesis by simp
  next
    case False
    with up Suc.prems show ?thesis by simp
  qed
qed

lemma bracket_upper: "x < 2 powi (bracket n x e + 1) \<or> bracket n x e = e + int n"
proof (induction n arbitrary: e)
  case 0
  then show ?case by simp
next
  case (Suc n)
  show ?case
  proof (cases "2 powi (e + 1) \<le> x")
    case True
    with Suc.IH [of "e + 1"] show ?thesis by auto
  next
    case up: False
    show ?thesis
    proof (cases "x < 2 powi e")
      case True
      then have "x < 2 powi (e - 1 + 1)" by simp
      from bracket_upper_keep [OF this, of n] up True show ?thesis by simp
    next
      case False
      with up show ?thesis by simp
    qed
  qed
qed

lemma round_half_even_error: "\<bar>of_int (round_half_even y) - y\<bar> \<le> 1 / 2"
proof -
  have "of_int \<lfloor>y\<rfloor> \<le> y" "y < of_int \<lfloor>y\<rfloor> + 1" by linarith+
  then show ?thesis
    by (auto simp: round_half_even_def Let_def)
qed

lemma double_round_ulp_error:
  "\<bar>double_round x - x\<bar> \<le> 2 powi (double_exponent x - 53)"
proof (cases "x = 0")
  case True
  then show ?thesis by (simp add: double_round_def)
next
  case False
  let ?ulp = "2 powi (double_exponent x - 52) :: real"
  have pos: "0 < ?ulp" by simp
  have "double_round x - x = (of_int (round_half_even (x / ?ulp)) - x / ?ulp) * ?ulp"
    using False pos by (simp add: double_round_def Let_def field_simps)
  then have "\<bar>double_round x - x\<bar> = \<bar>of_int (round_half_even (x / ?ulp)) - x / ?ulp\<bar> * ?ulp"
    using pos by (simp add: abs_mult)
  also have "\<dots> \<le> 1 / 2 * ?ulp"
    using round_half_even_error [of "x / ?ulp"] pos by (intro mult_right_mono) simp_all
  also have "1 / 2 * ?ulp = 2 powi (double_exponent x - 53)"
  proof -
    have "(2::real) powi (double_exponent x - 52) = 2 powi (double_exponent x - 53 + 1)" by simp
    also have "\<dots> = 2 powi (double_exponent x - 53) * 2"
      by (rule power_int_add_1) simp
    finally show ?thesis by simp
  qed
  finally show ?thesis .
qed

lemma double_exponent_cases:
  "(2 powi double_exponent x \<le> \<bar>x\<bar>) \<or> double_exponent x = - 1022"
proof -
  let ?r = "bracket 1023 \<bar>x\<bar> 0"
  have "2 powi ?r \<le> \<bar>x\<bar> \<or> ?r = - 1023"
    using bracket_lower [of 1023 "\<bar>x\<bar>" 0] by simp
  then show ?thesis
  proof
    assume a: "2 powi ?r \<le> \<bar>x\<bar>"
    show ?thesis
    proof (cases "- 1022 \<le> ?r")
      case True
      then have "double_exponent x = ?r" by (simp add: double_exponent_def)
      with a show ?thesis by simp
    next
      case False
      then show ?thesis by (simp add: double_exponent_def)
    qed
  next
    assume "?r = - 1023"
    then show ?thesis by (simp add: double_exponent_def)
  qed
qed

lemma double_round_error:
  "\<bar>double_round x - x\<bar> \<le> unit_roundoff * \<bar>x\<bar> + underflow_unit"
proof -
  let ?e = "double_exponent x"
  have b: "\<bar>double_round x - x\<bar> \<le> 2 powi (?e - 53)" by (rule double_round_ulp_error)
  have split: "(2::real) powi (?e - 53) = 2 powi ?e * 2 powi (- 53)"
    using power_int_add [of "2::real" ?e "- 53"] by simp
  have u: "(2::real) powi (- 53) = unit_roundoff"
    by (simp add: unit_roundoff_def power_int_minus inverse_eq_divide)
  from double_exponent_cases [of x] show ?thesis
  proof
    assume "2 powi ?e \<le> \<bar>x\<bar>"
    then have "2 powi ?e * unit_roundoff \<le> \<bar>x\<bar> * unit_roundoff"
      by (intro mult_right_mono) (simp_all add: unit_roundoff_def)
    moreover have "2 powi (?e - 53) = 2 powi ?e * unit_roundoff"
      using split u by (simp only:)
    ultimately have "\<bar>double_round x - x\<bar> \<le> unit_roundoff * \<bar>x\<bar>"
      using b by (simp only: mult.commute [of unit_roundoff])
    moreover have "0 \<le> underflow_unit" by (simp add: underflow_unit_def)
    ultimately show ?thesis by linarith
  next
    assume "?e = - 1022"
    then have "(2::real) powi (?e - 53) = 2 powi (- 1075)" by simp
    also have "\<dots> = underflow_unit"
      by (simp add: underflow_unit_def power_int_minus inverse_eq_divide)
    finally have "\<bar>double_round x - x\<bar> \<le> underflow_unit" using b by simp
    moreover have "0 \<le> unit_roundoff * \<bar>x\<bar>" by (simp add: unit_roundoff_def)
    ultimately show ?thesis by linarith
  qed
qed

text \<open>The doubles nearest to 0.1, to 1/3 and to -1.1, and two ties, which go to the even
  significand.\<close>

lemma double_round_examples:
  "double_round (1 / 10) = 3602879701896397 / 2 ^ 55"
  "double_round (1 / 3) = 6004799503160661 / 2 ^ 54"
  "double_round (- (11 / 10)) = - (2476979795053773 / 2 ^ 51)"
  by (simp_all add: double_round_def double_exponent_def eval_nat_numeral round_half_even_def Let_def)

lemma double_round_ties:
  "double_round (2 ^ 53 + 1) = 2 ^ 53"
  "double_round (2 ^ 53 + 3) = 2 ^ 53 + 4"
  by (simp_all add: double_round_def double_exponent_def eval_nat_numeral round_half_even_def Let_def)

section \<open>Pixels and seconds\<close>

lemma pixels_seconds_inverse:
  "z \<noteq> 0 \<Longrightarrow> pixelsToSeconds (\<lambda>x. x) (secondsToPixels (\<lambda>x. x) t z) z = t"
  by (simp add: pixelsToSeconds_def secondsToPixels_def)

lemma roundtrip_error:
  fixes t z u h :: real and rnd :: "real \<Rightarrow> real"
  assumes rnd: "\<And>x. \<bar>rnd x - x\<bar> \<le> u * \<bar>x\<bar> + h"
    and u: "0 \<le> u" "u \<le> 1" and h: "0 \<le> h" and t: "0 \<le> t" and z: "10 \<le> z"
  shows "\<bar>rnd (rnd (t * z) / z) - t\<bar> \<le> (2 * u + u\<^sup>2) * t + 2 * h"
proof -
  let ?a = "rnd (t * z)" and ?y = "rnd (t * z) / z"
  have zpos: "0 < z" using z by simp
  have a: "\<bar>?a - t * z\<bar> \<le> u * (t * z) + h"
    using rnd [of "t * z"] t zpos by (simp add: abs_mult)
  have "?y - t = (?a - t * z) / z" using zpos by (simp add: field_simps)
  then have "\<bar>?y - t\<bar> = \<bar>?a - t * z\<bar> / z" using zpos by simp
  also have "\<dots> \<le> (u * (t * z) + h) / z"
    using a zpos by (simp add: divide_right_mono)
  also have "\<dots> = u * t + h / z" using zpos by (simp add: field_simps)
  finally have y: "\<bar>?y - t\<bar> \<le> u * t + h / z" .
  have hz: "h / z \<le> h / 10"
    using h z by (intro frac_le) simp_all
  have ya: "\<bar>?y\<bar> \<le> t + u * t + h / 10" using y hz t by linarith
  have "\<bar>rnd ?y - ?y\<bar> \<le> u * \<bar>?y\<bar> + h" by (rule rnd)
  also have "u * \<bar>?y\<bar> \<le> u * (t + u * t + h / 10)"
    using ya u(1) by (rule mult_left_mono)
  finally have r: "\<bar>rnd ?y - ?y\<bar> \<le> u * (t + u * t + h / 10) + h" by simp
  have "u * (h / 10) \<le> 1 * (h / 10)"
    using u(2) h by (intro mult_right_mono) simp_all
  then have uh: "u * (h / 10) \<le> h / 10" by simp
  have expand: "u * (t + u * t + h / 10) = u * t + u\<^sup>2 * t + u * (h / 10)"
    by (simp add: algebra_simps power2_eq_square)
  have "\<bar>rnd ?y - t\<bar> \<le> \<bar>rnd ?y - ?y\<bar> + \<bar>?y - t\<bar>" by linarith
  also have "\<dots> \<le> (u * t + u\<^sup>2 * t + u * (h / 10) + h) + (u * t + h / 10)"
    using r y hz expand by linarith
  also have "\<dots> \<le> (2 * u + u\<^sup>2) * t + 2 * h"
    using uh h by (simp add: algebra_simps)
  finally show ?thesis .
qed

text \<open>
  C9. For every \<open>t \<ge> 0\<close> and every zoom in the clamped range \<open>[10, 500]\<close>, converting a
  time to pixels and back returns \<open>t\<close>: exactly in exact arithmetic, and in double
  arithmetic, as long as the product does not overflow, up to the tolerance of two
  roundings, a relative error of \<open>2 u + u\<^sup>2\<close> for the unit roundoff \<open>u = 2^(-53)\<close> and an
  absolute error of \<open>2^(-1074)\<close> where the results are subnormal. The functions depend
  on their arguments alone. Every zoom that \<open>setZoom\<close> stores is in the range.
\<close>

theorem pixels_seconds_roundtrip:
  "(0 \<le> t \<and> 10 \<le> z \<and> z \<le> 500 \<longrightarrow>
      pixelsToSeconds (\<lambda>x. x) (secondsToPixels (\<lambda>x. x) t z) z = t)
   \<and> (0 \<le> t \<and> 10 \<le> z \<and> z \<le> 500 \<and> t * z < 2 ^ 1023 \<longrightarrow>
      \<bar>pixelsToSeconds double_round (secondsToPixels double_round t z) z - t\<bar>
        \<le> (2 * unit_roundoff + unit_roundoff\<^sup>2) * t + 2 * underflow_unit)
   \<and> 10 \<le> zoom (setZoom z' state) \<and> zoom (setZoom z' state) \<le> 500"
proof -
  have exact: "0 \<le> t \<and> 10 \<le> z \<and> z \<le> 500 \<longrightarrow>
      pixelsToSeconds (\<lambda>x. x) (secondsToPixels (\<lambda>x. x) t z) z = t"
    by (simp add: pixelsToSeconds_def secondsToPixels_def)
  have rounded: "0 \<le> t \<and> 10 \<le> z \<and> z \<le> 500 \<and> t * z < 2 ^ 1023 \<longrightarrow>
      \<bar>pixelsToSeconds double_round (secondsToPixels double_round t z) z - t\<bar>
        \<le> (2 * unit_roundoff + unit_roundoff\<^sup>2) * t + 2 * underflow_unit"
  proof
    assume a: "0 \<le> t \<and> 10 \<le> z \<and> z \<le> 500 \<and> t * z < 2 ^ 1023"
    have "\<bar>double_round (double_round (t * z) / z) - t\<bar>
        \<le> (2 * unit_roundoff + unit_roundoff\<^sup>2) * t + 2 * underflow_unit"
    proof (rule roundtrip_error)
      show "\<And>x. \<bar>double_round x - x\<bar> \<le> unit_roundoff * \<bar>x\<bar> + underflow_unit"
        by (rule double_round_error)
      show "0 \<le> unit_roundoff" "unit_roundoff \<le> 1" by (simp_all add: unit_roundoff_def)
      show "0 \<le> underflow_unit" by (simp add: underflow_unit_def)
      show "0 \<le> t" "10 \<le> z" using a by simp_all
    qed
    then show "\<bar>pixelsToSeconds double_round (secondsToPixels double_round t z) z - t\<bar>
        \<le> (2 * unit_roundoff + unit_roundoff\<^sup>2) * t + 2 * underflow_unit"
      by (simp add: pixelsToSeconds_def secondsToPixels_def)
  qed
  have range: "10 \<le> zoom (setZoom z' state) \<and> zoom (setZoom z' state) \<le> 500"
    by (simp add: setZoom_def)
  from exact rounded range show ?thesis by blast
qed

lemma double_11_100: "double_round (11 / 100) = 7926335344172073 / 72057594037927936"
  by (simp add: double_round_def double_exponent_def eval_nat_numeral round_half_even_def Let_def)

lemma roundtrip_11_100:
  "pixelsToSeconds double_round
     (secondsToPixels double_round (7926335344172073 / 72057594037927936) 10) 10
     = 3963167672086037 / 36028797018963968"
  by (simp add: pixelsToSeconds_def secondsToPixels_def double_round_def double_exponent_def
      eval_nat_numeral round_half_even_def Let_def)

theorem pixels_seconds_roundtrip_witness:
  "pixelsToSeconds (\<lambda>x. x) (secondsToPixels (\<lambda>x. x) (11 / 100) 10) 10 = 11 / 100
   \<and> pixelsToSeconds double_round (secondsToPixels double_round (double_round (11 / 100)) 10) 10
        \<noteq> double_round (11 / 100)
   \<and> \<bar>pixelsToSeconds double_round (secondsToPixels double_round (double_round (11 / 100)) 10) 10
        - double_round (11 / 100)\<bar>
        \<le> (2 * unit_roundoff + unit_roundoff\<^sup>2) * double_round (11 / 100) + 2 * underflow_unit"
proof -
  have h1: "(0::real) \<le> 11 / 100 \<and> (10::real) \<le> 10 \<and> (10::real) \<le> 500" by simp
  have h2: "0 \<le> double_round (11 / 100) \<and> (10::real) \<le> 10 \<and> (10::real) \<le> 500
      \<and> double_round (11 / 100) * 10 < 2 ^ 1023"
    by (simp add: double_11_100)
  from pixels_seconds_roundtrip [of "11 / 100" 10] h1
  have 1: "pixelsToSeconds (\<lambda>x. x) (secondsToPixels (\<lambda>x. x) (11 / 100) 10) 10 = 11 / 100"
    by blast
  from pixels_seconds_roundtrip [of "double_round (11 / 100)" 10] h2
  have 3: "\<bar>pixelsToSeconds double_round (secondsToPixels double_round (double_round (11 / 100)) 10) 10
        - double_round (11 / 100)\<bar>
        \<le> (2 * unit_roundoff + unit_roundoff\<^sup>2) * double_round (11 / 100) + 2 * underflow_unit"
    by blast
  have 2: "pixelsToSeconds double_round (secondsToPixels double_round (double_round (11 / 100)) 10) 10
        \<noteq> double_round (11 / 100)"
    by (simp only: double_11_100 roundtrip_11_100)
  from 1 2 3 show ?thesis by blast
qed

section \<open>Placing an item\<close>




section \<open>Sanitizing a snapshot\<close>

lemma sanitizeItem_idem: "sanitizeItem (sanitizeItem i) = sanitizeItem i"
  by (cases "volume i"; cases "opacity i") (simp_all add: sanitizeItem_def)

lemma sanitizeTrack_idem: "sanitizeTrack (n, sanitizeTrack (n, t)) = sanitizeTrack (n, t)"
  by (cases "height t") (simp_all add: sanitizeTrack_def)

lemma sanitize_tracks_idem:
  "map sanitizeTrack (enumerate n (map sanitizeTrack (enumerate n ts))) = map sanitizeTrack (enumerate n ts)"
  by (induction ts arbitrary: n) (simp_all add: sanitizeTrack_idem)

text \<open>
  C5. \<open>sanitizeTimeline\<close> is idempotent: for every snapshot, applying it twice gives the
  state that applying it once gives.
\<close>

theorem sanitizeTimeline_idempotent:
  "sanitizeTimeline (sanitizeTimeline s) = sanitizeTimeline s"
  by (simp add: sanitizeTimeline_def sanitize_tracks_idem sanitizeItem_idem comp_def)

theorem sanitizeTimeline_idempotent_witness:
  "sanitizeTimeline (sanitizeTimeline bad_snapshot) = sanitizeTimeline bad_snapshot
   \<and> playheadPosition (sanitizeTimeline bad_snapshot) = 0
   \<and> timeline_duration (sanitizeTimeline bad_snapshot) = 1
   \<and> zoom (sanitizeTimeline bad_snapshot) = 500
   \<and> map track_order (tracks (sanitizeTimeline bad_snapshot)) = [0, 1]
   \<and> map height (tracks (sanitizeTimeline bad_snapshot)) = [Some 40, Some 120]
   \<and> map startTime (items (sanitizeTimeline bad_snapshot)) = [0]
   \<and> map duration (items (sanitizeTimeline bad_snapshot)) = [1 / 10]
   \<and> map volume (items (sanitizeTimeline bad_snapshot)) = [Some 100]
   \<and> map opacity (items (sanitizeTimeline bad_snapshot)) = [Some 0]"
proof -
  have "sanitizeTimeline (sanitizeTimeline bad_snapshot) = sanitizeTimeline bad_snapshot"
    by (rule sanitizeTimeline_idempotent)
  moreover have "playheadPosition (sanitizeTimeline bad_snapshot) = 0
   \<and> timeline_duration (sanitizeTimeline bad_snapshot) = 1
   \<and> zoom (sanitizeTimeline bad_snapshot) = 500
   \<and> map track_order (tracks (sanitizeTimeline bad_snapshot)) = [0, 1]
   \<and> map height (tracks (sanitizeTimeline bad_snapshot)) = [Some 40, Some 120]
   \<and> map startTime (items (sanitizeTimeline bad_snapshot)) = [0]
   \<and> map duration (items (sanitizeTimeline bad_snapshot)) = [1 / 10]
   \<and> map volume (items (sanitizeTimeline bad_snapshot)) = [Some 100]
   \<and> map opacity (items (sanitizeTimeline bad_snapshot)) = [Some 0]"
    by (simp add: sanitizeTimeline_def bad_snapshot_def sanitizeTrack_def sanitizeItem_def
        mk_item_def enumerate_eq_zip upt_rec)
  ultimately show ?thesis by blast
qed

section \<open>Snapping to the nearest candidate\<close>











section \<open>Resizing at the end handle\<close>

lemma handleMouseMove_end:
  "handleMouseMove rnd (Some HandleEnd) x0 z s0 d0 itemId snap x =
     (if rnd (1 / 10)
           < rnd (snap (rnd (s0 + max (rnd (1 / 10)) (rnd (d0 + rnd (rnd (x - x0) / z))))) itemId - s0)
      then Some (itemId, no_updates_tl\<lparr> v_duration :=
             Some (rnd (snap (rnd (s0 + max (rnd (1 / 10)) (rnd (d0 + rnd (rnd (x - x0) / z))))) itemId
                     - s0)) \<rparr>)
      else None)"
  by (simp add: handleMouseMove_def Let_def)

lemma double_round_raw: "double_round (5 + double_round (double_round (- 500) / 100)) = 0"
proof -
  have "double_round (double_round (- 500) / 100) = - 5"
    by (simp add: double_round_def double_exponent_def eval_nat_numeral round_half_even_def Let_def)
  then show ?thesis by (simp add: double_round_def)
qed

lemma handleMouseMove_end_update:
  "handleMouseMove rnd (Some HandleEnd) x0 z s0 d0 itemId snap x = Some (i, u)
   \<Longrightarrow> i = itemId \<and> v_startTime u = None \<and> (\<exists>d. v_duration u = Some d \<and> rnd (1 / 10) < d)"
  by (auto simp: handleMouseMove_def Let_def no_updates_tl_def split: if_splits)

text \<open>
  C6. The claim: an end-handle resize whose pointer delta would give a duration below
  0.1 commits the duration 0.1. Item \<open>a\<close> starts at 0 and lasts 5 seconds; at zoom 100
  the pointer moves 500 pixels to the left, which would give the duration 0. In double
  arithmetic the candidate duration is the number 0.1, no snap point is nearer than the
  threshold, and the guard \<open>snappedDuration > 0.1\<close> rejects the candidate: \<open>onUpdate\<close> is
  not called and the duration stays 5.
\<close>

theorem resize_end_floor_not_committed:
  "double_round (5 + double_round (double_round (0 - 500) / 100)) < double_round (1 / 10)
   \<and> handleMouseMove double_round (Some HandleEnd) 500 100 0 5 ''a''
        (onSnapTime_of double_round (initialState_tl\<lparr> tracks_tl := demo_tracks \<rparr>)) 0 = None
   \<and> map (map duration_tl) (map items_tl (tracks_tl
        (apply_onUpdate
           (handleMouseMove double_round (Some HandleEnd) 500 100 0 5 ''a''
              (onSnapTime_of double_round (initialState_tl\<lparr> tracks_tl := demo_tracks \<rparr>)) 0)
           (initialState_tl\<lparr> tracks_tl := demo_tracks \<rparr>)))) = [[5]]"
proof -
  define D01 :: real where "D01 = 3602879701896397 / 36028797018963968"
  let ?st = "initialState_tl\<lparr> tracks_tl := demo_tracks \<rparr>"
  have thr: "double_round (1 / 10) = D01"
    unfolding D01_def
    by (simp add: double_round_def double_exponent_def eval_nat_numeral round_half_even_def Let_def)
  have idem: "double_round D01 = D01"
    unfolding D01_def
    by (simp add: double_round_def double_exponent_def eval_nat_numeral round_half_even_def Let_def)
  have pos: "0 < D01" unfolding D01_def by simp
  have snap: "onSnapTime_of double_round ?st D01 ''a'' = D01"
    unfolding onSnapTime_of_def default_snapThreshold_def thr unfolding D01_def
    by (simp add: snapTime_def calculateSnap_def initialState_tl_def demo_tracks_def
        itemSnapPoints_def mk_item_tl_def nearest_step_def round_def Let_def)
  have none: "handleMouseMove double_round (Some HandleEnd) 500 100 0 5 ''a''
        (onSnapTime_of double_round ?st) 0 = None"
    using pos by (simp add: handleMouseMove_end double_round_raw thr idem snap max_def)
  have lt: "double_round (5 + double_round (double_round (0 - 500) / 100)) < double_round (1 / 10)"
    using pos by (simp add: double_round_raw thr)
  have keep: "map (map duration_tl) (map items_tl (tracks_tl (apply_onUpdate None ?st))) = [[5]]"
    by (simp add: apply_onUpdate_def demo_tracks_def mk_item_tl_def)
  from lt none keep show ?thesis by (simp only:)
qed

text \<open>
  With the item at 1 instead of 0 the rounding decides otherwise: \<open>1 + 0.1\<close> rounds up,
  the difference to 1 is above the number 0.1, and \<open>onUpdate\<close> is called with a duration
  that is not the number 0.1 either.
\<close>

lemma resize_end_start_1:
  "handleMouseMove double_round (Some HandleEnd) 500 100 1 5 ''a''
        (onSnapTime_of double_round (initialState_tl\<lparr> tracks_tl := demo_tracks \<rparr>)) 0
     = Some (''a'', no_updates_tl\<lparr> v_duration := Some (225179981368525 / 2251799813685248) \<rparr>)
   \<and> double_round (1 / 10) < 225179981368525 / 2251799813685248"
proof -
  define D01 :: real where "D01 = 3602879701896397 / 36028797018963968"
  define D11 :: real where "D11 = 2476979795053773 / 2251799813685248"
  define R :: real where "R = 225179981368525 / 2251799813685248"
  let ?st = "initialState_tl\<lparr> tracks_tl := demo_tracks \<rparr>"
  have thr: "double_round (1 / 10) = D01"
    unfolding D01_def
    by (simp add: double_round_def double_exponent_def eval_nat_numeral round_half_even_def Let_def)
  have pos: "0 < D01" unfolding D01_def by simp
  have cand: "double_round (1 + D01) = D11"
    unfolding D01_def D11_def
    by (simp add: double_round_def double_exponent_def eval_nat_numeral round_half_even_def Let_def)
  have snap: "onSnapTime_of double_round ?st D11 ''a'' = D11"
    unfolding onSnapTime_of_def default_snapThreshold_def thr unfolding D01_def D11_def
    by (simp add: snapTime_def calculateSnap_def initialState_tl_def demo_tracks_def
        itemSnapPoints_def mk_item_tl_def nearest_step_def round_def Let_def)
  have diff: "double_round (D11 - 1) = R"
    unfolding D11_def R_def
    by (simp add: double_round_def double_exponent_def eval_nat_numeral round_half_even_def Let_def)
  have gt: "D01 < R" unfolding D01_def R_def by simp
  have upd: "handleMouseMove double_round (Some HandleEnd) 500 100 1 5 ''a''
        (onSnapTime_of double_round ?st) 0 = Some (''a'', no_updates_tl\<lparr> v_duration := Some R \<rparr>)"
    using pos gt by (simp add: handleMouseMove_end double_round_raw thr cand snap diff max_def)
  from upd gt thr show ?thesis unfolding R_def by simp
qed

end
